theory Spec2Isabelle
  imports Main "HOL-Library.AList"
begin

section \<open>Data model (FlightDataBaseConnector.py, lines 8-38)\<close>

text \<open>
  A \<open>datetime\<close> is a point on a linear time axis, read as an integer count of clock
  ticks. Python integers are unbounded, so \<open>seats_total\<close>, \<open>seats_available\<close> and
  \<open>flight_size\<close> are \<open>int\<close>. A field of a pydantic model that is declared \<open>str = None\<close>
  holds a string or \<open>None\<close>, hence \<open>string option\<close>.
\<close>

type_synonym datetime = int

type_synonym ObjectId = nat

datatype BookingStatus = AVAILABLE | BOOKED

record Booking =
  seat_number :: string
  booking_status :: BookingStatus
  passenger_name :: "string option"
  passenger_id :: "string option"
  booking_time :: "datetime option"

record Flight =
  flight_number :: string
  departure_time :: datetime
  origin :: string
  destination :: string
  estimated_arrival_time :: datetime
  seats_total :: int
  seats_available :: int
  bookings :: "Booking list"

text \<open>
  The collection of stored flight documents, in the store's natural order, each with
  the identifier the store knows it by.
\<close>

type_synonym collection = "(ObjectId \<times> Flight) list"

datatype error = ValidationError

text \<open>
  The validator of \<open>estimated_arrival_time\<close> (lines 34-38). \<open>departure_time\<close> is declared
  before it, so it is among the validated values when the validator runs; the
  \<open>ValueError\<close> surfaces from the constructor as a validation error.
\<close>

definition validate_arrival_time :: "datetime \<Rightarrow> datetime \<Rightarrow> error + datetime" where
  "validate_arrival_time v departure = (if v \<le> departure then Inl ValidationError else Inr v)"

section \<open>Decimal rendering of seat numbers\<close>

text \<open>
  \<open>add_flight\<close> passes the integer \<open>i + 1\<close> for the field \<open>seat_number: str\<close>; the model
  class stores its decimal rendering \<open>str(i + 1)\<close>. Only positive numbers occur.
\<close>

definition digit_char :: "nat \<Rightarrow> char" where
  "digit_char d = ''0123456789'' ! d"

function str_nat :: "nat \<Rightarrow> string" where
  "str_nat n = (if n < 10 then [digit_char n] else str_nat (n div 10) @ [digit_char (n mod 10)])"
  by pat_completeness auto
termination
  by (relation "measure id") auto

declare str_nat.simps [simp del]

section \<open>The document store\<close>

text \<open>
  \<open>Flight.get\<close> fetches the document with a given identifier; \<open>flight.save()\<close> replaces
  the stored document of that identifier, or inserts the document when the store has
  none. The identifier of a new document is generated outside the program, so
  \<open>add_flight\<close> takes it as an argument.
\<close>

definition get :: "collection \<Rightarrow> ObjectId \<Rightarrow> Flight option" where
  "get coll oid = map_of coll oid"

fun save :: "collection \<Rightarrow> ObjectId \<Rightarrow> Flight \<Rightarrow> collection" where
  "save [] oid flight = [(oid, flight)]"
| "save ((k, g) # rest) oid flight =
     (if k = oid then (k, flight) # rest else (k, g) # save rest oid flight)"

section \<open>add_flight (lines 44-85)\<close>

definition new_booking :: "nat \<Rightarrow> Booking" where
  "new_booking i =
     \<lparr>seat_number = str_nat (i + 1), booking_status = AVAILABLE,
      passenger_name = None, passenger_id = None, booking_time = None\<rparr>"

text \<open>The loop \<open>for i in range(flight_size)\<close>, appending one booking per index.\<close>

fun add_seats :: "Flight \<Rightarrow> nat list \<Rightarrow> Flight" where
  "add_seats flight [] = flight"
| "add_seats flight (i # rest) =
     add_seats (flight\<lparr>bookings := bookings flight @ [new_booking i]\<rparr>) rest"

text \<open>
  \<open>range(flight_size)\<close> is empty for a negative \<open>flight_size\<close>, as \<open>[0..<nat flight_size]\<close>
  is. The result pairs what the caller gets (the identifier, or the error raised by
  the constructor before anything is saved) with the collection afterwards.
\<close>

definition add_flight ::
  "collection \<Rightarrow> ObjectId \<Rightarrow> string \<Rightarrow> datetime \<Rightarrow> string \<Rightarrow> string \<Rightarrow> datetime \<Rightarrow> int
     \<Rightarrow> (error + ObjectId) \<times> collection" where
  "add_flight coll oid fnum departure orig dest arrival flight_size =
     (case validate_arrival_time arrival departure of
        Inl e \<Rightarrow> (Inl e, coll)
      | Inr v \<Rightarrow>
          (let flight = \<lparr>flight_number = fnum, departure_time = departure, origin = orig,
                         destination = dest, estimated_arrival_time = v,
                         seats_total = flight_size, seats_available = flight_size,
                         bookings = []\<rparr>;
               flight = add_seats flight [0..<nat flight_size]
           in (Inr oid, save coll oid flight)))"

section \<open>book_flight (lines 118-156)\<close>

text \<open>
  \<open>book_flight\<close> returns nothing; what it reports is the line it prints. The outcomes
  are: line 131 (no such flight), line 138 (the seat is already in the requested
  status; the wording depends on the requested status), line 143 (the passenger does not
  match the one who booked), line 153 (done), line 156 (no such seat).
\<close>

datatype message =
  FlightNotFound
| NoOpTransition BookingStatus
| IdentityMismatch
| Success
| SeatNotFound

text \<open>
  The loop over \<open>flight.bookings\<close> (lines 135-154): the first booking with the seat
  number decides. \<open>now\<close> is the reading of \<open>datetime.utcnow()\<close>. The loop returns the
  outcome and the bookings as they are afterwards.
\<close>

fun book_seat ::
  "Booking list \<Rightarrow> string \<Rightarrow> string \<Rightarrow> string \<Rightarrow> BookingStatus \<Rightarrow> datetime
     \<Rightarrow> message \<times> Booking list" where
  "book_seat [] seat name pid status now = (SeatNotFound, [])"
| "book_seat (booking # rest) seat name pid status now =
     (if seat_number booking = seat then
        (if booking_status booking = status then (NoOpTransition status, booking # rest)
         else if status = AVAILABLE \<and>
                 (passenger_id booking \<noteq> Some pid \<or> passenger_name booking \<noteq> Some name)
         then (IdentityMismatch, booking # rest)
         else (Success,
               booking\<lparr>passenger_name := (if status = AVAILABLE then None else Some name),
                        passenger_id := (if status = AVAILABLE then None else Some pid),
                        booking_status := status,
                        booking_time := (if status = AVAILABLE then None else Some now)\<rparr>
               # rest))
      else (case book_seat rest seat name pid status now of
              (m, rest') \<Rightarrow> (m, booking # rest')))"

text \<open>
  Only the successful path reaches \<open>flight.save()\<close>; every other path returns with the
  collection as it was.
\<close>

definition book_flight ::
  "collection \<Rightarrow> ObjectId \<Rightarrow> string \<Rightarrow> string \<Rightarrow> string \<Rightarrow> BookingStatus \<Rightarrow> datetime
     \<Rightarrow> message \<times> collection" where
  "book_flight coll flight_id seat name pid status now =
     (case get coll flight_id of
        None \<Rightarrow> (FlightNotFound, coll)
      | Some flight \<Rightarrow>
          (case book_seat (bookings flight) seat name pid status now of
             (Success, bs) \<Rightarrow>
               (Success,
                save coll flight_id
                  (flight\<lparr>bookings := bs,
                          seats_available :=
                            seats_available flight + (if status = BOOKED then - 1 else 1)\<rparr>))
           | (m, bs) \<Rightarrow> (m, coll)))"

section \<open>get_flights (lines 87-116)\<close>

text \<open>
  The query is a dictionary from a field name to a condition, handed to the store's
  \<open>find\<close>. The store keeps each flight as a document: a list of named values.
\<close>

datatype bson =
  BString string
| BDate datetime
| BInt int
| BNull
| BObjectId ObjectId
| BArray "bson list"
| BDocument "(string \<times> bson) list"

definition opt_string :: "string option \<Rightarrow> bson" where
  "opt_string v = (case v of None \<Rightarrow> BNull | Some s \<Rightarrow> BString s)"

definition opt_date :: "datetime option \<Rightarrow> bson" where
  "opt_date v = (case v of None \<Rightarrow> BNull | Some t \<Rightarrow> BDate t)"

definition status_value :: "BookingStatus \<Rightarrow> string" where
  "status_value s = (case s of AVAILABLE \<Rightarrow> ''available'' | BOOKED \<Rightarrow> ''booked'')"

definition booking_document :: "Booking \<Rightarrow> bson" where
  "booking_document b =
     BDocument
       [(''seat_number'', BString (seat_number b)),
        (''booking_status'', BString (status_value (booking_status b))),
        (''passenger_name'', opt_string (passenger_name b)),
        (''passenger_id'', opt_string (passenger_id b)),
        (''booking_time'', opt_date (booking_time b))]"

definition flight_document :: "ObjectId \<Rightarrow> Flight \<Rightarrow> (string \<times> bson) list" where
  "flight_document oid f =
     [(''_id'', BObjectId oid),
      (''flight_number'', BString (flight_number f)),
      (''departure_time'', BDate (departure_time f)),
      (''origin'', BString (origin f)),
      (''destination'', BString (destination f)),
      (''estimated_arrival_time'', BDate (estimated_arrival_time f)),
      (''seats_total'', BInt (seats_total f)),
      (''seats_available'', BInt (seats_available f)),
      (''bookings'', BArray (map booking_document (bookings f)))]"

text \<open>
  A condition is a plain value (the field equals it) or one operator with its operand
  (\<open>{"$gte": t}\<close>, \<open>{"$lt": t}\<close>). The program compares timestamps only, so the range
  operators are modelled on timestamps; a document that has no field of the queried name,
  or has a value of another type there, does not satisfy a range condition. A plain value
  is matched by a missing field only when it is null.
\<close>

datatype condition = Equals bson | Gte bson | Lt bson

fun satisfies :: "bson option \<Rightarrow> condition \<Rightarrow> bool" where
  "satisfies None (Equals w) = (w = BNull)"
| "satisfies (Some v) (Equals w) = (v = w)"
| "satisfies (Some (BDate d)) (Gte (BDate t)) = (t \<le> d)"
| "satisfies (Some (BDate d)) (Lt (BDate t)) = (d < t)"
| "satisfies v c = False"

definition matches :: "(string \<times> condition) list \<Rightarrow> ObjectId \<times> Flight \<Rightarrow> bool" where
  "matches query entry =
     list_all (\<lambda>(field, c). satisfies (map_of (flight_document (fst entry) (snd entry)) field) c)
       query"

definition find_many :: "collection \<Rightarrow> (string \<times> condition) list \<Rightarrow> collection" where
  "find_many coll query = filter (matches query) coll"

text \<open>
  A string argument counts as given when it is neither \<open>None\<close> nor empty (Python's
  truth value of a string); a \<open>datetime\<close> argument counts as given whenever it is not
  \<open>None\<close>. Assigning to a key of the dictionary is \<open>AList.update\<close>.
\<close>

definition truthy :: "string option \<Rightarrow> bool" where
  "truthy v = (case v of None \<Rightarrow> False | Some s \<Rightarrow> s \<noteq> [])"

definition get_flights ::
  "collection \<Rightarrow> string option \<Rightarrow> string option \<Rightarrow> string option
     \<Rightarrow> datetime option \<Rightarrow> datetime option \<Rightarrow> collection" where
  "get_flights coll fnum orig dest start_time end_time =
     (let query = [];
          query = (case fnum of
                     Some s \<Rightarrow> if truthy fnum
                               then AList.update ''flight_number'' (Equals (BString s)) query
                               else query
                   | None \<Rightarrow> query);
          query = (case orig of
                     Some s \<Rightarrow> if truthy orig
                               then AList.update ''origin'' (Equals (BString s)) query
                               else query
                   | None \<Rightarrow> query);
          query = (case dest of
                     Some s \<Rightarrow> if truthy dest
                               then AList.update ''destination'' (Equals (BString s)) query
                               else query
                   | None \<Rightarrow> query);
          query = (case start_time of
                     Some t \<Rightarrow> AList.update ''departure_time'' (Gte (BDate t)) query
                   | None \<Rightarrow> query);
          query = (case end_time of
                     Some t \<Rightarrow> AList.update ''departure_time__lt'' (Lt (BDate t)) query
                   | None \<Rightarrow> query)
      in find_many coll query)"

section \<open>Sequences of operations\<close>

text \<open>
  The menu loop of the application calls \<open>add_flight\<close> and \<open>book_flight\<close> one after the
  other on the same store. A run is a list of such calls, started on a collection.
\<close>

datatype operation =
  AddFlight ObjectId string datetime string string datetime int
| BookFlight ObjectId string string string BookingStatus datetime

fun step :: "collection \<Rightarrow> operation \<Rightarrow> collection" where
  "step coll (AddFlight oid fnum departure orig dest arrival flight_size) =
     snd (add_flight coll oid fnum departure orig dest arrival flight_size)"
| "step coll (BookFlight flight_id seat name pid status now) =
     snd (book_flight coll flight_id seat name pid status now)"

definition run :: "collection \<Rightarrow> operation list \<Rightarrow> collection" where
  "run coll ops = foldl step coll ops"

fun seat_count :: "operation \<Rightarrow> int" where
  "seat_count (AddFlight oid fnum departure orig dest arrival flight_size) = flight_size"
| "seat_count (BookFlight flight_id seat name pid status now) = 0"

definition available_count :: "Flight \<Rightarrow> int" where
  "available_count f = int (length (filter (\<lambda>b. booking_status b = AVAILABLE) (bookings f)))"

text \<open>
  The counter of a flight agrees with its bookings when it is the number of bookings
  that are \<open>AVAILABLE\<close> and \<open>seats_total\<close> is the number of bookings.
\<close>

definition counter_ok :: "Flight \<Rightarrow> bool" where
  "counter_ok f \<longleftrightarrow>
     seats_available f = available_count f \<and> seats_total f = int (length (bookings f))"

section \<open>What a query is meant to select\<close>

definition flights_numbered :: "string \<Rightarrow> collection \<Rightarrow> collection" where
  "flights_numbered s coll = filter (\<lambda>e. flight_number (snd e) = s) coll"

definition flights_departing_from :: "datetime \<Rightarrow> collection \<Rightarrow> collection" where
  "flights_departing_from t coll = filter (\<lambda>e. t \<le> departure_time (snd e)) coll"

definition flights_departing_before :: "datetime \<Rightarrow> collection \<Rightarrow> collection" where
  "flights_departing_before t coll = filter (\<lambda>e. departure_time (snd e) < t) coll"

section \<open>A small store for concrete checks\<close>

text \<open>
  Flight AB123 with two seats after seat 1 was booked for Alice, and a flight that was
  entered with an empty flight number and no seats.
\<close>

definition demo_flight :: Flight where
  "demo_flight =
     \<lparr>flight_number = ''AB123'', departure_time = 10, origin = ''PEK'', destination = ''SHA'',
      estimated_arrival_time = 20, seats_total = 2, seats_available = 1,
      bookings =
        [\<lparr>seat_number = ''1'', booking_status = BOOKED, passenger_name = Some ''Alice'',
          passenger_id = Some ''ID1'', booking_time = Some 15\<rparr>,
         \<lparr>seat_number = ''2'', booking_status = AVAILABLE, passenger_name = None,
          passenger_id = None, booking_time = None\<rparr>]\<rparr>"

definition unnamed_flight :: Flight where
  "unnamed_flight =
     \<lparr>flight_number = [], departure_time = 30, origin = ''SHA'', destination = ''PEK'',
      estimated_arrival_time = 40, seats_total = 0, seats_available = 0, bookings = []\<rparr>"

definition demo_store :: collection where
  "demo_store = [(7, demo_flight), (8, unnamed_flight)]"

section \<open>Properties of add_flight\<close>

lemma get_save: "get (save coll oid flight) oid = Some flight"
  by (induction coll) (auto simp: get_def)

lemma add_seats_bookings:
  "bookings (add_seats flight is) = bookings flight @ map new_booking is"
  by (induction "is" arbitrary: flight) auto

lemma add_seats_fields:
  "seats_total (add_seats flight is) = seats_total flight"
  "seats_available (add_seats flight is) = seats_available flight"
  by (induction "is" arbitrary: flight) auto

text \<open>
  Claim C2. For every non-negative seat count \<open>N\<close> and every input whose arrival is
  strictly later than its departure, \<open>add_flight\<close> returns the identifier of a stored
  flight with exactly \<open>N\<close> bookings, each of them \<open>AVAILABLE\<close> with no passenger name, no
  passenger id and no booking time, and with \<open>seats_available = seats_total = N\<close>.
\<close>

theorem add_flight_creates_seats:
  assumes "0 \<le> N" and "departure < arrival"
  shows "\<exists>flight.
           add_flight coll oid fnum departure orig dest arrival N =
             (Inr oid, save coll oid flight) \<and>
           get (save coll oid flight) oid = Some flight \<and>
           int (length (bookings flight)) = N \<and>
           (\<forall>b \<in> set (bookings flight).
              booking_status b = AVAILABLE \<and> passenger_name b = None \<and>
              passenger_id b = None \<and> booking_time b = None) \<and>
           seats_available flight = N \<and> seats_total flight = N"
proof -
  define flight where "flight = add_seats
     \<lparr>flight_number = fnum, departure_time = departure, origin = orig,
      destination = dest, estimated_arrival_time = arrival,
      seats_total = N, seats_available = N, bookings = []\<rparr> [0..<nat N]"
  from assms(2) have "add_flight coll oid fnum departure orig dest arrival N =
      (Inr oid, save coll oid flight)"
    by (simp add: add_flight_def validate_arrival_time_def flight_def)
  moreover have "get (save coll oid flight) oid = Some flight"
    by (rule get_save)
  moreover from assms(1) have "int (length (bookings flight)) = N"
    by (simp add: flight_def add_seats_bookings)
  moreover have "\<forall>b \<in> set (bookings flight).
      booking_status b = AVAILABLE \<and> passenger_name b = None \<and>
      passenger_id b = None \<and> booking_time b = None"
    by (auto simp: flight_def add_seats_bookings new_booking_def)
  moreover have "seats_available flight = N" "seats_total flight = N"
    by (simp_all add: flight_def add_seats_fields)
  ultimately show ?thesis by blast
qed

theorem add_flight_creates_seats_witness:
  "(0::int) \<le> 2 \<and> (10::int) < 20 \<and>
   (\<exists>flight.
      add_flight [] 7 ''AB123'' 10 ''PEK'' ''SHA'' 20 2 = (Inr 7, save [] 7 flight) \<and>
      get (save [] 7 flight) 7 = Some flight \<and>
      int (length (bookings flight)) = 2 \<and>
      (\<forall>b \<in> set (bookings flight).
         booking_status b = AVAILABLE \<and> passenger_name b = None \<and>
         passenger_id b = None \<and> booking_time b = None) \<and>
      seats_available flight = 2 \<and> seats_total flight = 2)"
  using add_flight_creates_seats [of 2 10 20 "[]" 7 "''AB123''" "''PEK''" "''SHA''"] by simp

text \<open>
  Claim C8. Whenever the estimated arrival time is less than or equal to the departure
  time, \<open>add_flight\<close> fails with the validation error and the collection is as it was:
  nothing is saved.
\<close>

theorem add_flight_rejects_arrival:
  "arrival \<le> departure \<Longrightarrow>
   add_flight coll oid fnum departure orig dest arrival N = (Inl ValidationError, coll)"
  by (simp add: add_flight_def validate_arrival_time_def)

theorem add_flight_rejects_arrival_witness:
  "(10::int) \<le> 10 \<and>
   add_flight [] 7 ''AB123'' 10 ''PEK'' ''SHA'' 10 2 = (Inl ValidationError, [])"
  using add_flight_rejects_arrival [of 10 10 "[]" 7 "''AB123''" "''PEK''" "''SHA''" 2] by simp

section \<open>Properties of book_flight\<close>

text \<open>
  What the loop does is decided by the first booking that carries the seat number.
\<close>

lemma book_seat_first:
  assumes "i < length bs" and "seat_number (bs ! i) = seat"
    and "\<forall>j<i. seat_number (bs ! j) \<noteq> seat"
  shows "book_seat bs seat name pid status now =
     (if booking_status (bs ! i) = status then (NoOpTransition status, bs)
      else if status = AVAILABLE \<and>
              (passenger_id (bs ! i) \<noteq> Some pid \<or> passenger_name (bs ! i) \<noteq> Some name)
      then (IdentityMismatch, bs)
      else (Success,
            bs[i := (bs ! i)\<lparr>passenger_name := (if status = AVAILABLE then None else Some name),
                        passenger_id := (if status = AVAILABLE then None else Some pid),
                        booking_status := status,
                        booking_time := (if status = AVAILABLE then None else Some now)\<rparr>]))"
  using assms
proof (induction bs arbitrary: i)
  case Nil
  then show ?case by simp
next
  case (Cons b bs)
  show ?case
  proof (cases i)
    case 0
    with Cons.prems show ?thesis by auto
  next
    case (Suc k)
    from Cons.prems Suc have k: "k < length bs" "seat_number (bs ! k) = seat" by simp_all
    from Cons.prems(3) Suc have hd: "seat_number b \<noteq> seat" by auto
    from Cons.prems(3) Suc have "\<forall>j<k. seat_number (bs ! j) \<noteq> seat" by auto
    from Cons.IH [OF k this] hd Suc show ?thesis by auto
  qed
qed

text \<open>With seat numbers unique within the flight, every booking is the first of its number.\<close>

lemma distinct_first:
  assumes "distinct (map seat_number bs)" and "i < length bs" and "j < i"
  shows "seat_number (bs ! j) \<noteq> seat_number (bs ! i)"
proof -
  from assms have "map seat_number bs ! j \<noteq> map seat_number bs ! i"
    by (auto simp: distinct_conv_nth)
  with assms show ?thesis by simp
qed

lemma book_seat_distinct:
  assumes "distinct (map seat_number bs)" and "i < length bs" and "seat_number (bs ! i) = seat"
  shows "book_seat bs seat name pid status now =
     (if booking_status (bs ! i) = status then (NoOpTransition status, bs)
      else if status = AVAILABLE \<and>
              (passenger_id (bs ! i) \<noteq> Some pid \<or> passenger_name (bs ! i) \<noteq> Some name)
      then (IdentityMismatch, bs)
      else (Success,
            bs[i := (bs ! i)\<lparr>passenger_name := (if status = AVAILABLE then None else Some name),
                        passenger_id := (if status = AVAILABLE then None else Some pid),
                        booking_status := status,
                        booking_time := (if status = AVAILABLE then None else Some now)\<rparr>]))"
proof -
  from assms have "\<forall>j<i. seat_number (bs ! j) \<noteq> seat"
    using distinct_first [of bs i] by auto
  with assms(2,3) show ?thesis by (rule book_seat_first)
qed

text \<open>The small store is what the program has after adding AB123, booking seat 1 and
  adding the flight without a number.\<close>

lemma demo_run:
  "run [] [AddFlight 7 ''AB123'' 10 ''PEK'' ''SHA'' 20 2,
           BookFlight 7 ''1'' ''Alice'' ''ID1'' BOOKED 15,
           AddFlight 8 [] 30 ''SHA'' ''PEK'' 40 0] = demo_store"
  by (simp add: run_def add_flight_def validate_arrival_time_def book_flight_def get_def
      new_booking_def str_nat.simps digit_char_def demo_store_def demo_flight_def unnamed_flight_def
      upt_conv_Cons)

text \<open>
  Claim C3. In a flight whose seat numbers are unique, take a booking with the requested
  seat number whose status is \<open>AVAILABLE\<close>. Then \<open>book_flight\<close> with status \<open>BOOKED\<close>
  succeeds, and in the flight saved afterwards that booking is \<open>BOOKED\<close>, carries the given
  passenger name and passenger id and a booking time (the clock reading), and
  \<open>seats_available\<close> is one less than before.
\<close>

theorem book_available_seat:
  assumes "get coll fid = Some flight"
    and "distinct (map seat_number (bookings flight))"
    and "i < length (bookings flight)"
    and "seat_number (bookings flight ! i) = seat"
    and "booking_status (bookings flight ! i) = AVAILABLE"
  shows "\<exists>flight'.
           book_flight coll fid seat name pid BOOKED now = (Success, save coll fid flight') \<and>
           get (save coll fid flight') fid = Some flight' \<and>
           length (bookings flight') = length (bookings flight) \<and>
           seat_number (bookings flight' ! i) = seat \<and>
           booking_status (bookings flight' ! i) = BOOKED \<and>
           passenger_name (bookings flight' ! i) = Some name \<and>
           passenger_id (bookings flight' ! i) = Some pid \<and>
           booking_time (bookings flight' ! i) = Some now \<and>
           seats_available flight' = seats_available flight - 1"
proof -
  let ?bs = "bookings flight"
  let ?b = "(?bs ! i)\<lparr>passenger_name := Some name, passenger_id := Some pid,
                        booking_status := BOOKED, booking_time := Some now\<rparr>"
  let ?f = "flight\<lparr>bookings := ?bs[i := ?b], seats_available := seats_available flight - 1\<rparr>"
  from assms(2-5) have "book_seat ?bs seat name pid BOOKED now = (Success, ?bs[i := ?b])"
    by (simp add: book_seat_distinct)
  with assms(1) have "book_flight coll fid seat name pid BOOKED now = (Success, save coll fid ?f)"
    by (simp add: book_flight_def)
  moreover have "get (save coll fid ?f) fid = Some ?f" by (rule get_save)
  moreover from assms(3,4) have "length (bookings ?f) = length ?bs"
    "seat_number (bookings ?f ! i) = seat"
    "booking_status (bookings ?f ! i) = BOOKED"
    "passenger_name (bookings ?f ! i) = Some name"
    "passenger_id (bookings ?f ! i) = Some pid"
    "booking_time (bookings ?f ! i) = Some now"
    "seats_available ?f = seats_available flight - 1"
    by simp_all
  ultimately show ?thesis by blast
qed

theorem book_available_seat_witness:
  "get demo_store 7 = Some demo_flight \<and>
   distinct (map seat_number (bookings demo_flight)) \<and>
   1 < length (bookings demo_flight) \<and>
   seat_number (bookings demo_flight ! 1) = ''2'' \<and>
   booking_status (bookings demo_flight ! 1) = AVAILABLE \<and>
   (\<exists>flight'.
      book_flight demo_store 7 ''2'' ''Bob'' ''ID2'' BOOKED 16 = (Success, save demo_store 7 flight') \<and>
      get (save demo_store 7 flight') 7 = Some flight' \<and>
      length (bookings flight') = length (bookings demo_flight) \<and>
      seat_number (bookings flight' ! 1) = ''2'' \<and>
      booking_status (bookings flight' ! 1) = BOOKED \<and>
      passenger_name (bookings flight' ! 1) = Some ''Bob'' \<and>
      passenger_id (bookings flight' ! 1) = Some ''ID2'' \<and>
      booking_time (bookings flight' ! 1) = Some 16 \<and>
      seats_available flight' = seats_available demo_flight - 1)"
proof -
  have h1: "get demo_store 7 = Some demo_flight" by (simp add: get_def demo_store_def)
  have h2: "distinct (map seat_number (bookings demo_flight))" by (simp add: demo_flight_def)
  have h3: "1 < length (bookings demo_flight)" by (simp add: demo_flight_def)
  have h4: "seat_number (bookings demo_flight ! 1) = ''2''" by (simp add: demo_flight_def)
  have h5: "booking_status (bookings demo_flight ! 1) = AVAILABLE" by (simp add: demo_flight_def)
  from book_available_seat [OF h1 h2 h3 h4 h5, where name = "''Bob''" and pid = "''ID2''" and now = 16]
    h1 h2 h3 h4 h5
  show ?thesis by blast
qed

text \<open>
  Claim C4. In a flight whose seat numbers are unique, take a booking with the requested
  seat number whose status is \<open>BOOKED\<close> and whose stored passenger name and id are the ones
  given. Then \<open>book_flight\<close> with status \<open>AVAILABLE\<close> succeeds, and in the flight saved
  afterwards that booking is \<open>AVAILABLE\<close> with passenger name, passenger id and booking
  time cleared, and \<open>seats_available\<close> is one more than before.
\<close>

theorem cancel_booked_seat:
  assumes "get coll fid = Some flight"
    and "distinct (map seat_number (bookings flight))"
    and "i < length (bookings flight)"
    and "seat_number (bookings flight ! i) = seat"
    and "booking_status (bookings flight ! i) = BOOKED"
    and "passenger_name (bookings flight ! i) = Some name"
    and "passenger_id (bookings flight ! i) = Some pid"
  shows "\<exists>flight'.
           book_flight coll fid seat name pid AVAILABLE now = (Success, save coll fid flight') \<and>
           get (save coll fid flight') fid = Some flight' \<and>
           length (bookings flight') = length (bookings flight) \<and>
           seat_number (bookings flight' ! i) = seat \<and>
           booking_status (bookings flight' ! i) = AVAILABLE \<and>
           passenger_name (bookings flight' ! i) = None \<and>
           passenger_id (bookings flight' ! i) = None \<and>
           booking_time (bookings flight' ! i) = None \<and>
           seats_available flight' = seats_available flight + 1"
proof -
  let ?bs = "bookings flight"
  let ?b = "(?bs ! i)\<lparr>passenger_name := None, passenger_id := None,
                        booking_status := AVAILABLE, booking_time := None\<rparr>"
  let ?f = "flight\<lparr>bookings := ?bs[i := ?b], seats_available := seats_available flight + 1\<rparr>"
  from assms(2-7) have "book_seat ?bs seat name pid AVAILABLE now = (Success, ?bs[i := ?b])"
    by (simp add: book_seat_distinct)
  with assms(1) have "book_flight coll fid seat name pid AVAILABLE now = (Success, save coll fid ?f)"
    by (simp add: book_flight_def)
  moreover have "get (save coll fid ?f) fid = Some ?f" by (rule get_save)
  moreover from assms(3,4) have "length (bookings ?f) = length ?bs"
    "seat_number (bookings ?f ! i) = seat"
    "booking_status (bookings ?f ! i) = AVAILABLE"
    "passenger_name (bookings ?f ! i) = None"
    "passenger_id (bookings ?f ! i) = None"
    "booking_time (bookings ?f ! i) = None"
    "seats_available ?f = seats_available flight + 1"
    by simp_all
  ultimately show ?thesis by blast
qed

theorem cancel_booked_seat_witness:
  "get demo_store 7 = Some demo_flight \<and>
   distinct (map seat_number (bookings demo_flight)) \<and>
   0 < length (bookings demo_flight) \<and>
   seat_number (bookings demo_flight ! 0) = ''1'' \<and>
   booking_status (bookings demo_flight ! 0) = BOOKED \<and>
   passenger_name (bookings demo_flight ! 0) = Some ''Alice'' \<and>
   passenger_id (bookings demo_flight ! 0) = Some ''ID1'' \<and>
   (\<exists>flight'.
      book_flight demo_store 7 ''1'' ''Alice'' ''ID1'' AVAILABLE 16 =
        (Success, save demo_store 7 flight') \<and>
      get (save demo_store 7 flight') 7 = Some flight' \<and>
      length (bookings flight') = length (bookings demo_flight) \<and>
      seat_number (bookings flight' ! 0) = ''1'' \<and>
      booking_status (bookings flight' ! 0) = AVAILABLE \<and>
      passenger_name (bookings flight' ! 0) = None \<and>
      passenger_id (bookings flight' ! 0) = None \<and>
      booking_time (bookings flight' ! 0) = None \<and>
      seats_available flight' = seats_available demo_flight + 1)"
proof -
  have h1: "get demo_store 7 = Some demo_flight" by (simp add: get_def demo_store_def)
  have h2: "distinct (map seat_number (bookings demo_flight))" by (simp add: demo_flight_def)
  have h3: "0 < length (bookings demo_flight)" by (simp add: demo_flight_def)
  have h4: "seat_number (bookings demo_flight ! 0) = ''1''" by (simp add: demo_flight_def)
  have h5: "booking_status (bookings demo_flight ! 0) = BOOKED" by (simp add: demo_flight_def)
  have h6: "passenger_name (bookings demo_flight ! 0) = Some ''Alice''"
    by (simp add: demo_flight_def)
  have h7: "passenger_id (bookings demo_flight ! 0) = Some ''ID1''" by (simp add: demo_flight_def)
  from cancel_booked_seat [OF h1 h2 h3 h4 h5 h6 h7, where now = 16] h1 h2 h3 h4 h5 h6 h7
  show ?thesis by blast
qed

text \<open>
  Claim C5. In a flight whose seat numbers are unique, take a \<open>BOOKED\<close> booking with the
  requested seat number. If the given passenger name or the given passenger id differs
  from the stored one, \<open>book_flight\<close> with status \<open>AVAILABLE\<close> reports the identity
  mismatch and the collection (the booking, \<open>seats_available\<close> and everything else) is
  unchanged.
\<close>

theorem cancel_identity_mismatch:
  assumes "get coll fid = Some flight"
    and "distinct (map seat_number (bookings flight))"
    and "i < length (bookings flight)"
    and "seat_number (bookings flight ! i) = seat"
    and "booking_status (bookings flight ! i) = BOOKED"
    and "passenger_name (bookings flight ! i) \<noteq> Some name \<or>
         passenger_id (bookings flight ! i) \<noteq> Some pid"
  shows "book_flight coll fid seat name pid AVAILABLE now = (IdentityMismatch, coll)"
proof -
  from assms(2-6) have "book_seat (bookings flight) seat name pid AVAILABLE now =
      (IdentityMismatch, bookings flight)"
    by (auto simp: book_seat_distinct)
  with assms(1) show ?thesis by (simp add: book_flight_def)
qed

theorem cancel_identity_mismatch_witness:
  "get demo_store 7 = Some demo_flight \<and>
   distinct (map seat_number (bookings demo_flight)) \<and>
   0 < length (bookings demo_flight) \<and>
   seat_number (bookings demo_flight ! 0) = ''1'' \<and>
   booking_status (bookings demo_flight ! 0) = BOOKED \<and>
   passenger_name (bookings demo_flight ! 0) \<noteq> Some ''Bob'' \<and>
   passenger_id (bookings demo_flight ! 0) = Some ''ID1'' \<and>
   book_flight demo_store 7 ''1'' ''Bob'' ''ID1'' AVAILABLE 16 = (IdentityMismatch, demo_store)"
proof -
  have h1: "get demo_store 7 = Some demo_flight" by (simp add: get_def demo_store_def)
  have h2: "distinct (map seat_number (bookings demo_flight))" by (simp add: demo_flight_def)
  have h3: "0 < length (bookings demo_flight)" by (simp add: demo_flight_def)
  have h4: "seat_number (bookings demo_flight ! 0) = ''1''" by (simp add: demo_flight_def)
  have h5: "booking_status (bookings demo_flight ! 0) = BOOKED" by (simp add: demo_flight_def)
  have h6: "passenger_name (bookings demo_flight ! 0) \<noteq> Some ''Bob''"
    by (simp add: demo_flight_def)
  have h7: "passenger_id (bookings demo_flight ! 0) = Some ''ID1''" by (simp add: demo_flight_def)
  from cancel_identity_mismatch [OF h1 h2 h3 h4 h5 disjI1 [OF h6], where pid = "''ID1''"
      and now = 16] h1 h2 h3 h4 h5 h6 h7
  show ?thesis by blast
qed

text \<open>
  Claim C6. In a flight whose seat numbers are unique, take a booking with the requested
  seat number whose status already is the requested one. Then \<open>book_flight\<close> reports that
  nothing is to be done and the collection is unchanged.
\<close>

theorem book_flight_no_op:
  assumes "get coll fid = Some flight"
    and "distinct (map seat_number (bookings flight))"
    and "i < length (bookings flight)"
    and "seat_number (bookings flight ! i) = seat"
    and "booking_status (bookings flight ! i) = status"
  shows "book_flight coll fid seat name pid status now = (NoOpTransition status, coll)"
proof -
  from assms(2-5) have "book_seat (bookings flight) seat name pid status now =
      (NoOpTransition status, bookings flight)"
    by (simp add: book_seat_distinct)
  with assms(1) show ?thesis by (simp add: book_flight_def)
qed

theorem book_flight_no_op_witness:
  "get demo_store 7 = Some demo_flight \<and>
   distinct (map seat_number (bookings demo_flight)) \<and>
   0 < length (bookings demo_flight) \<and>
   seat_number (bookings demo_flight ! 0) = ''1'' \<and>
   booking_status (bookings demo_flight ! 0) = BOOKED \<and>
   book_flight demo_store 7 ''1'' ''Bob'' ''ID2'' BOOKED 16 = (NoOpTransition BOOKED, demo_store)"
proof -
  have h1: "get demo_store 7 = Some demo_flight" by (simp add: get_def demo_store_def)
  have h2: "distinct (map seat_number (bookings demo_flight))" by (simp add: demo_flight_def)
  have h3: "0 < length (bookings demo_flight)" by (simp add: demo_flight_def)
  have h4: "seat_number (bookings demo_flight ! 0) = ''1''" by (simp add: demo_flight_def)
  have h5: "booking_status (bookings demo_flight ! 0) = BOOKED" by (simp add: demo_flight_def)
  from book_flight_no_op [OF h1 h2 h3 h4 h5, where name = "''Bob''" and pid = "''ID2''" and now = 16]
    h1 h2 h3 h4 h5
  show ?thesis by blast
qed

section \<open>Properties of get_flights\<close>

text \<open>The fields a query of this program can name, as the stored document has them.\<close>

lemma field_simps_doc:
  "map_of (flight_document oid f) ''flight_number'' = Some (BString (flight_number f))"
  "map_of (flight_document oid f) ''origin'' = Some (BString (origin f))"
  "map_of (flight_document oid f) ''destination'' = Some (BString (destination f))"
  "map_of (flight_document oid f) ''departure_time'' = Some (BDate (departure_time f))"
  "map_of (flight_document oid f) ''departure_time__lt'' = None"
  by (simp_all add: flight_document_def)

text \<open>
  What \<open>get_flights\<close> selects, for all arguments at once: the three string filters
  constrain when they are non-empty, \<open>start_time\<close> is a lower bound on the departure
  time, and a query with an \<open>end_time\<close> selects nothing, since no stored document has a
  field \<open>departure_time__lt\<close>.
\<close>

lemma get_flights_char:
  "get_flights coll fnum orig dest start_time end_time =
     filter (\<lambda>e. (truthy fnum \<longrightarrow> fnum = Some (flight_number (snd e))) \<and>
                 (truthy orig \<longrightarrow> orig = Some (origin (snd e))) \<and>
                 (truthy dest \<longrightarrow> dest = Some (destination (snd e))) \<and>
                 (case start_time of None \<Rightarrow> True | Some t \<Rightarrow> t \<le> departure_time (snd e)) \<and>
                 end_time = None) coll"
  unfolding get_flights_def find_many_def Let_def
  by (rule filter_cong [OF refl])
     (auto simp: matches_def field_simps_doc truthy_def split: option.splits)

lemma get_flights_end_time_empty:
  "get_flights coll fnum orig dest start_time (Some t) = []"
  by (simp add: get_flights_char)

text \<open>
  Claim C1 says that a query with only \<open>end_time\<close> set returns exactly the flights that
  depart strictly before it. On the small store, with \<open>end_time = 100\<close>, both flights depart
  before 100, and \<open>get_flights\<close> returns none of them.
\<close>

theorem get_flights_end_time_selects_nothing:
  "get_flights demo_store None None None None (Some 100) = [] \<and>
   flights_departing_before 100 demo_store = demo_store"
  by (simp add: get_flights_char flights_departing_before_def demo_store_def demo_flight_def
      unnamed_flight_def)

text \<open>
  Claim C9 as stated fails where the flight number given is the empty string: the query
  then has no condition and returns every flight, not the flights whose number is empty.
\<close>

theorem get_flights_empty_number_counterexample:
  "get_flights demo_store (Some []) None None None None \<noteq> flights_numbered [] demo_store"
  by (simp add: get_flights_char truthy_def flights_numbered_def demo_store_def demo_flight_def
      unnamed_flight_def)

text \<open>
  Claim C9, amended. A query with every filter omitted returns all flights; a query with
  only a non-empty flight number returns exactly the flights with that number; a query
  with only \<open>start_time = t\<close> returns exactly the flights whose departure time is at least
  \<open>t\<close>.
\<close>

theorem get_flights_filters:
  "get_flights coll None None None None None = coll \<and>
   (s \<noteq> [] \<longrightarrow> get_flights coll (Some s) None None None None = flights_numbered s coll) \<and>
   get_flights coll None None None (Some t) None = flights_departing_from t coll"
  by (auto simp: get_flights_char truthy_def flights_numbered_def flights_departing_from_def
      intro: filter_cong)

theorem get_flights_filters_witness:
  "''AB123'' \<noteq> [] \<and>
   get_flights demo_store None None None None None = demo_store \<and>
   get_flights demo_store (Some ''AB123'') None None None None =
     flights_numbered ''AB123'' demo_store \<and>
   get_flights demo_store None None None (Some 20) None = flights_departing_from 20 demo_store"
  using get_flights_filters [of demo_store "''AB123''" 20] by simp

text \<open>
  Claim C10. An empty string given for the flight number, the origin or the destination
  gives the same result as leaving that filter out; so whenever the flight number does
  constrain the query (it is non-empty), no flight with an empty flight number is among
  the results.
\<close>

theorem get_flights_empty_string:
  "get_flights coll (Some []) orig dest start_time end_time =
     get_flights coll None orig dest start_time end_time \<and>
   get_flights coll fnum (Some []) dest start_time end_time =
     get_flights coll fnum None dest start_time end_time \<and>
   get_flights coll fnum orig (Some []) start_time end_time =
     get_flights coll fnum orig None start_time end_time \<and>
   (s \<noteq> [] \<longrightarrow> (oid, f) \<in> set (get_flights coll (Some s) orig dest start_time end_time) \<longrightarrow>
      flight_number f \<noteq> [])"
  by (auto simp: get_flights_char truthy_def)

theorem get_flights_empty_string_witness:
  "get_flights demo_store (Some []) None None None None =
     get_flights demo_store None None None None None \<and>
   get_flights demo_store (Some ''AB123'') (Some []) None None None =
     get_flights demo_store (Some ''AB123'') None None None None \<and>
   get_flights demo_store (Some ''AB123'') None (Some []) None None =
     get_flights demo_store (Some ''AB123'') None None None None \<and>
   ''AB123'' \<noteq> [] \<and>
   (7, demo_flight) \<in> set (get_flights demo_store (Some ''AB123'') None None None None) \<and>
   flight_number demo_flight \<noteq> []"
proof -
  have h1: "''AB123'' \<noteq> []" by simp
  have h2: "(7, demo_flight) \<in> set (get_flights demo_store (Some ''AB123'') None None None None)"
    by (simp add: get_flights_char truthy_def demo_store_def demo_flight_def)
  from get_flights_empty_string [of demo_store None None None None "Some ''AB123''" "''AB123''" 7
      demo_flight] h1 h2
  show ?thesis by blast
qed

section \<open>The seat counter over runs of the program\<close>

lemma set_save: "set (save coll oid flight) \<subseteq> insert (oid, flight) (set coll)"
  by (induction coll) (auto split: if_splits)

lemma get_in_set: "get coll oid = Some flight \<Longrightarrow> (oid, flight) \<in> set coll"
  by (simp add: get_def map_of_SomeD)

lemma book_seat_length:
  "book_seat bs seat name pid status now = (m, bs') \<Longrightarrow> length bs' = length bs"
  by (induction bs arbitrary: m bs') (auto split: if_splits prod.splits)

lemma book_seat_available:
  "book_seat bs seat name pid status now = (Success, bs') \<Longrightarrow>
   int (length (filter (\<lambda>b. booking_status b = AVAILABLE) bs')) =
   int (length (filter (\<lambda>b. booking_status b = AVAILABLE) bs)) +
     (if status = BOOKED then - 1 else 1)"
proof (induction bs arbitrary: bs')
  case Nil
  then show ?case by simp
next
  case (Cons b bs)
  show ?case
  proof (cases "seat_number b = seat")
    case True
    with Cons.prems show ?thesis
      by (cases "booking_status b"; cases status) (auto split: if_splits)
  next
    case False
    with Cons.prems obtain rest where r: "book_seat bs seat name pid status now = (Success, rest)"
      and bs': "bs' = b # rest"
      by (auto split: prod.splits)
    from Cons.IH [OF r] bs' show ?thesis by simp
  qed
qed

lemma add_flight_counter_ok:
  assumes "0 \<le> N" and "\<forall>e \<in> set coll. counter_ok (snd e)"
  shows "\<forall>e \<in> set (snd (add_flight coll oid fnum departure orig dest arrival N)).
           counter_ok (snd e)"
proof (cases "arrival \<le> departure")
  case True
  with assms(2) show ?thesis by (simp add: add_flight_def validate_arrival_time_def)
next
  case False
  define flight where "flight = add_seats
     \<lparr>flight_number = fnum, departure_time = departure, origin = orig,
      destination = dest, estimated_arrival_time = arrival,
      seats_total = N, seats_available = N, bookings = []\<rparr> [0..<nat N]"
  have "filter (\<lambda>b. booking_status b = AVAILABLE) (map new_booking [0..<nat N]) =
      map new_booking [0..<nat N]"
    by (simp add: new_booking_def)
  with assms(1) have ok: "counter_ok flight"
    by (simp add: counter_ok_def available_count_def flight_def add_seats_bookings
        add_seats_fields)
  from False have "snd (add_flight coll oid fnum departure orig dest arrival N) =
      save coll oid flight"
    by (simp add: add_flight_def validate_arrival_time_def flight_def)
  with ok assms(2) set_save [of coll oid flight] show ?thesis by auto
qed

lemma book_flight_counter_ok:
  assumes "\<forall>e \<in> set coll. counter_ok (snd e)"
  shows "\<forall>e \<in> set (snd (book_flight coll fid seat name pid status now)). counter_ok (snd e)"
proof (cases "get coll fid")
  case None
  with assms show ?thesis by (simp add: book_flight_def)
next
  case (Some flight)
  obtain m bs where r: "book_seat (bookings flight) seat name pid status now = (m, bs)"
    by (cases "book_seat (bookings flight) seat name pid status now")
  show ?thesis
  proof (cases "m = Success")
    case False
    with Some r assms show ?thesis by (cases m) (simp_all add: book_flight_def)
  next
    case True
    let ?f = "flight\<lparr>bookings := bs,
        seats_available := seats_available flight + (if status = BOOKED then - 1 else 1)\<rparr>"
    from Some have "(fid, flight) \<in> set coll" by (rule get_in_set)
    with assms have "counter_ok flight" by auto
    with r True book_seat_length [OF r] book_seat_available [of "bookings flight" seat name pid status now bs]
    have ok: "counter_ok ?f"
      by (simp add: counter_ok_def available_count_def)
    from Some r True have "snd (book_flight coll fid seat name pid status now) = save coll fid ?f"
      by (simp add: book_flight_def)
    with ok assms set_save [of coll fid ?f] show ?thesis by auto
  qed
qed

lemma run_counter_ok:
  assumes "\<forall>op \<in> set ops. 0 \<le> seat_count op" and "\<forall>e \<in> set coll. counter_ok (snd e)"
  shows "\<forall>e \<in> set (run coll ops). counter_ok (snd e)"
  using assms unfolding run_def
proof (induction ops arbitrary: coll)
  case Nil
  then show ?case by simp
next
  case (Cons op ops)
  have "\<forall>e \<in> set (step coll op). counter_ok (snd e)"
  proof (cases op)
    case (AddFlight oid fnum departure orig dest arrival N)
    with Cons.prems(1) have "0 \<le> N" by simp
    from add_flight_counter_ok [OF this Cons.prems(2)] AddFlight show ?thesis by simp
  next
    case (BookFlight fid seat name pid status now)
    from book_flight_counter_ok [OF Cons.prems(2)] BookFlight show ?thesis by simp
  qed
  moreover from Cons.prems(1) have "\<forall>op \<in> set ops. 0 \<le> seat_count op" by simp
  ultimately show ?case using Cons.IH by simp
qed

lemma counter_ok_bounds:
  "counter_ok f \<Longrightarrow> 0 \<le> seats_available f \<and> seats_available f \<le> seats_total f"
  by (simp add: counter_ok_def available_count_def)

text \<open>
  Claim C7 as stated fails for a flight created with a negative seat count:
  \<open>add_flight\<close> stores it with \<open>seats_available = seats_total = -1\<close> and no booking.
\<close>

theorem negative_seat_count_counterexample:
  "run [] [AddFlight 7 ''AB123'' 10 ''PEK'' ''SHA'' 20 (- 1)] =
     [(7, \<lparr>flight_number = ''AB123'', departure_time = 10, origin = ''PEK'',
           destination = ''SHA'', estimated_arrival_time = 20, seats_total = - 1,
           seats_available = - 1, bookings = []\<rparr>)] \<and>
   seats_available \<lparr>flight_number = ''AB123'', departure_time = 10, origin = ''PEK'',
           destination = ''SHA'', estimated_arrival_time = 20, seats_total = - 1,
           seats_available = - 1, bookings = []\<rparr> \<noteq>
   available_count \<lparr>flight_number = ''AB123'', departure_time = 10, origin = ''PEK'',
           destination = ''SHA'', estimated_arrival_time = 20, seats_total = - 1,
           seats_available = - 1, bookings = []\<rparr> \<and>
   \<not> 0 \<le> seats_available \<lparr>flight_number = ''AB123'', departure_time = 10, origin = ''PEK'',
           destination = ''SHA'', estimated_arrival_time = 20, seats_total = - 1,
           seats_available = - 1, bookings = []\<rparr>"
  by (simp add: run_def add_flight_def validate_arrival_time_def available_count_def)


text \<open>
  Claim C7, amended. Start from the empty collection and run any sequence of
  \<open>add_flight\<close> calls with non-negative seat counts and \<open>book_flight\<close> calls, whether they
  succeed or fail. Then for every stored flight \<open>seats_available\<close> is the number of its
  bookings that are \<open>AVAILABLE\<close>, and \<open>0 \<le> seats_available \<le> seats_total\<close>.
\<close>

theorem run_keeps_counter:
  assumes "\<forall>op \<in> set ops. 0 \<le> seat_count op" and "(oid, f) \<in> set (run [] ops)"
  shows "seats_available f = available_count f \<and>
         0 \<le> seats_available f \<and> seats_available f \<le> seats_total f"
proof -
  from run_counter_ok [OF assms(1), of "[]"] assms(2) have ok: "counter_ok f" by auto
  with counter_ok_bounds [OF ok] show ?thesis by (simp add: counter_ok_def)
qed


theorem run_keeps_counter_witness:
  "0 \<le> seat_count (AddFlight 7 ''AB123'' 10 ''PEK'' ''SHA'' 20 2) \<and>
   0 \<le> seat_count (BookFlight 7 ''1'' ''Alice'' ''ID1'' BOOKED 15) \<and>
   0 \<le> seat_count (AddFlight 8 [] 30 ''SHA'' ''PEK'' 40 0) \<and>
   (7, demo_flight) \<in> set (run [] [AddFlight 7 ''AB123'' 10 ''PEK'' ''SHA'' 20 2,
       BookFlight 7 ''1'' ''Alice'' ''ID1'' BOOKED 15, AddFlight 8 [] 30 ''SHA'' ''PEK'' 40 0]) \<and>
   seats_available demo_flight = available_count demo_flight \<and>
   0 \<le> seats_available demo_flight \<and> seats_available demo_flight \<le> seats_total demo_flight"
proof -
  let ?ops = "[AddFlight 7 ''AB123'' 10 ''PEK'' ''SHA'' 20 2,
       BookFlight 7 ''1'' ''Alice'' ''ID1'' BOOKED 15, AddFlight 8 [] 30 ''SHA'' ''PEK'' 40 0]"
  have h1: "\<forall>op \<in> set ?ops. 0 \<le> seat_count op" by simp
  have h2: "(7, demo_flight) \<in> set (run [] ?ops)" by (simp add: demo_run demo_store_def)
  from run_keeps_counter [OF h1 h2] h2 show ?thesis by simp
qed

section \<open>Seat numbers of stored flights are unique\<close>

text \<open>
  The decimal rendering is injective, so \<open>add_flight\<close> gives every seat its own number,
  and \<open>book_flight\<close> never changes a seat number.
\<close>

lemma digit_char_inj:
  assumes "d < 10" and "e < 10" and "digit_char d = digit_char e"
  shows "d = e"
proof -
  have "distinct ''0123456789''" by simp
  moreover have "length ''0123456789'' = 10" by simp
  ultimately show ?thesis
    using assms unfolding digit_char_def by (metis nth_eq_iff_index_eq)
qed

lemma str_nat_not_Nil: "str_nat n \<noteq> []"
  by (subst str_nat.simps) simp

lemma str_nat_inj: "str_nat m = str_nat n \<Longrightarrow> m = n"
proof (induction m arbitrary: n rule: str_nat.induct)
  case (1 m)
  show ?case
  proof (cases "m < 10")
    case True
    show ?thesis
    proof (cases "n < 10")
      case n: True
      from "1.prems" True n have "digit_char m = digit_char n"
        by (simp add: str_nat.simps [of m] str_nat.simps [of n])
      with True n show ?thesis by (rule digit_char_inj)
    next
      case n: False
      from "1.prems" True n str_nat_not_Nil [of "n div 10"] show ?thesis
        by (simp add: str_nat.simps [of m] str_nat.simps [of n])
    qed
  next
    case False
    show ?thesis
    proof (cases "n < 10")
      case n: True
      from "1.prems" False n str_nat_not_Nil [of "m div 10"] show ?thesis
        by (simp add: str_nat.simps [of m] str_nat.simps [of n])
    next
      case n: False
      from "1.prems" False n have eq: "str_nat (m div 10) = str_nat (n div 10)"
        and dg: "digit_char (m mod 10) = digit_char (n mod 10)"
        by (simp_all add: str_nat.simps [of m] str_nat.simps [of n])
      from "1.IH" [OF False eq] have "m div 10 = n div 10" .
      moreover from dg have "m mod 10 = n mod 10"
        by (intro digit_char_inj) simp_all
      ultimately show ?thesis by (metis div_mult_mod_eq)
    qed
  qed
qed

lemma new_bookings_distinct: "distinct (map seat_number (map new_booking is)) = distinct is"
proof -
  have "inj_on (seat_number \<circ> new_booking) (set is)"
    by (auto intro!: inj_onI simp: new_booking_def dest: str_nat_inj)
  then show ?thesis by (simp add: distinct_map)
qed

lemma book_seat_seat_numbers:
  "book_seat bs seat name pid status now = (m, bs') \<Longrightarrow>
   map seat_number bs' = map seat_number bs"
  by (induction bs arbitrary: m bs') (auto split: if_splits prod.splits)

lemma add_flight_seat_numbers:
  assumes "\<forall>e \<in> set coll. distinct (map seat_number (bookings (snd e)))"
  shows "\<forall>e \<in> set (snd (add_flight coll oid fnum departure orig dest arrival N)).
           distinct (map seat_number (bookings (snd e)))"
proof (cases "arrival \<le> departure")
  case True
  with assms show ?thesis by (simp add: add_flight_def validate_arrival_time_def)
next
  case False
  define flight where "flight = add_seats
     \<lparr>flight_number = fnum, departure_time = departure, origin = orig,
      destination = dest, estimated_arrival_time = arrival,
      seats_total = N, seats_available = N, bookings = []\<rparr> [0..<nat N]"
  have ok: "distinct (map seat_number (bookings flight))"
    using new_bookings_distinct [of "[0..<nat N]"]
    by (simp add: flight_def add_seats_bookings)
  from False have "snd (add_flight coll oid fnum departure orig dest arrival N) =
      save coll oid flight"
    by (simp add: add_flight_def validate_arrival_time_def flight_def)
  with ok assms set_save [of coll oid flight] show ?thesis by auto
qed

lemma book_flight_seat_numbers:
  assumes "\<forall>e \<in> set coll. distinct (map seat_number (bookings (snd e)))"
  shows "\<forall>e \<in> set (snd (book_flight coll fid seat name pid status now)).
           distinct (map seat_number (bookings (snd e)))"
proof (cases "get coll fid")
  case None
  with assms show ?thesis by (simp add: book_flight_def)
next
  case (Some flight)
  obtain m bs where r: "book_seat (bookings flight) seat name pid status now = (m, bs)"
    by (cases "book_seat (bookings flight) seat name pid status now")
  show ?thesis
  proof (cases "m = Success")
    case False
    with Some r assms show ?thesis by (cases m) (simp_all add: book_flight_def)
  next
    case True
    let ?f = "flight\<lparr>bookings := bs,
        seats_available := seats_available flight + (if status = BOOKED then - 1 else 1)\<rparr>"
    from Some have "(fid, flight) \<in> set coll" by (rule get_in_set)
    with assms have "distinct (map seat_number (bookings flight))" by auto
    with book_seat_seat_numbers [OF r] have ok: "distinct (map seat_number (bookings ?f))"
      by simp
    from Some r True have "snd (book_flight coll fid seat name pid status now) = save coll fid ?f"
      by (simp add: book_flight_def)
    with ok assms set_save [of coll fid ?f] show ?thesis by auto
  qed
qed

lemma run_seat_numbers:
  assumes "\<forall>e \<in> set coll. distinct (map seat_number (bookings (snd e)))"
  shows "\<forall>e \<in> set (run coll ops). distinct (map seat_number (bookings (snd e)))"
  using assms unfolding run_def
proof (induction ops arbitrary: coll)
  case Nil
  then show ?case by simp
next
  case (Cons op ops)
  have "\<forall>e \<in> set (step coll op). distinct (map seat_number (bookings (snd e)))"
  proof (cases op)
    case (AddFlight oid fnum departure orig dest arrival N)
    from add_flight_seat_numbers [OF Cons.prems] AddFlight show ?thesis by simp
  next
    case (BookFlight fid seat name pid status now)
    from book_flight_seat_numbers [OF Cons.prems] BookFlight show ?thesis by simp
  qed
  then show ?case using Cons.IH by simp
qed

text \<open>
  So the uniqueness of seat numbers that the booking properties ask of a flight holds
  for every flight the program can have stored.
\<close>

lemma stored_seat_numbers_distinct:
  "get (run [] ops) fid = Some flight \<Longrightarrow> distinct (map seat_number (bookings flight))"
  using run_seat_numbers [of "[]" ops] get_in_set [of "run [] ops" fid flight] by auto

end
